theory Spec2Isabelle
  imports Main "HOL-Library.Word"
begin

unbundle bit_operations_syntax

section \<open>ipdisp.h: constants and data\<close>

type_synonym u8 = "8 word"
type_synonym u16 = "16 word"
type_synonym u32 = "32 word"
type_synonym u64 = "64 word"

text \<open>C \<open>int\<close>: 32 bits, read as two's complement with \<open>sint\<close>.\<close>
type_synonym c_int = "32 word"

text \<open>C \<open>size_t\<close> of the 64-bit kernel.\<close>
type_synonym size_t = "64 word"

definition IPDISP_MAX_CLIENTS :: c_int where
  "IPDISP_MAX_CLIENTS = 4"

definition IPDISP_MAGIC :: u32 where
  "IPDISP_MAGIC = 0x49504453"

definition IPDISP_VERSION :: u32 where
  "IPDISP_VERSION = 1"

definition IPDISP_HEADER_SIZE :: nat where
  "IPDISP_HEADER_SIZE = 32"

datatype ipdisp_format = IPDISP_FORMAT_RGBA32 | IPDISP_FORMAT_RGB24
  | IPDISP_FORMAT_H264 | IPDISP_FORMAT_H265

text \<open>The enumerators' values: the first is 0, each next one is one more.\<close>
fun format_value :: "ipdisp_format \<Rightarrow> u32" where
  "format_value IPDISP_FORMAT_RGBA32 = 0"
| "format_value IPDISP_FORMAT_RGB24 = 1"
| "format_value IPDISP_FORMAT_H264 = 2"
| "format_value IPDISP_FORMAT_H265 = 3"

text \<open>
  \<open>struct ipdisp_packet_header\<close>. A field holds the value the CPU reads from it; for a
  field written through \<open>cpu_to_be32\<close> that is the byte-swapped value on a little-endian
  host. The field \<open>size\<close> is \<open>size_h\<close> here.
\<close>
record ipdisp_packet_header =
  magic :: u32
  version :: u32
  width :: u32
  height :: u32
  format :: u32
  timestamp :: u64
  size_h :: u32
  reserved :: u32

subsection \<open>Byte order of the host\<close>

datatype byte_order = LittleEndian | BigEndian

text \<open>The kernel's \<open>swab32\<close> and \<open>swab64\<close> (constant-folding forms).\<close>
definition swab32 :: "u32 \<Rightarrow> u32" where
  "swab32 x =
     push_bit 24 (x AND 0x000000ff) OR push_bit 8 (x AND 0x0000ff00) OR
     drop_bit 8 (x AND 0x00ff0000) OR drop_bit 24 (x AND 0xff000000)"

definition swab64 :: "u64 \<Rightarrow> u64" where
  "swab64 x =
     push_bit 56 (x AND 0x00000000000000ff) OR push_bit 40 (x AND 0x000000000000ff00) OR
     push_bit 24 (x AND 0x0000000000ff0000) OR push_bit 8 (x AND 0x00000000ff000000) OR
     drop_bit 8 (x AND 0x000000ff00000000) OR drop_bit 24 (x AND 0x0000ff0000000000) OR
     drop_bit 40 (x AND 0x00ff000000000000) OR drop_bit 56 (x AND 0xff00000000000000)"

definition cpu_to_be32 :: "byte_order \<Rightarrow> u32 \<Rightarrow> u32" where
  "cpu_to_be32 e x = (case e of LittleEndian \<Rightarrow> swab32 x | BigEndian \<Rightarrow> x)"

definition cpu_to_be64 :: "byte_order \<Rightarrow> u64 \<Rightarrow> u64" where
  "cpu_to_be64 e x = (case e of LittleEndian \<Rightarrow> swab64 x | BigEndian \<Rightarrow> x)"

text \<open>The bytes of a value, most significant first (network order).\<close>
definition be32_bytes :: "u32 \<Rightarrow> u8 list" where
  "be32_bytes x = [ucast (drop_bit 24 x), ucast (drop_bit 16 x), ucast (drop_bit 8 x), ucast x]"

definition be64_bytes :: "u64 \<Rightarrow> u8 list" where
  "be64_bytes x =
     [ucast (drop_bit 56 x), ucast (drop_bit 48 x), ucast (drop_bit 40 x), ucast (drop_bit 32 x),
      ucast (drop_bit 24 x), ucast (drop_bit 16 x), ucast (drop_bit 8 x), ucast x]"

text \<open>The bytes a field occupies in memory, lowest address first.\<close>
definition mem32 :: "byte_order \<Rightarrow> u32 \<Rightarrow> u8 list" where
  "mem32 e x = (case e of LittleEndian \<Rightarrow> rev (be32_bytes x) | BigEndian \<Rightarrow> be32_bytes x)"

definition mem64 :: "byte_order \<Rightarrow> u64 \<Rightarrow> u8 list" where
  "mem64 e x = (case e of LittleEndian \<Rightarrow> rev (be64_bytes x) | BigEndian \<Rightarrow> be64_bytes x)"

text \<open>
  The memory image of the header: the struct is \<open>__packed\<close>, so the fields follow each
  other in declaration order with no padding. This is what \<open>iov_base = &header\<close> with
  \<open>iov_len = sizeof(header)\<close> hands to the socket.
\<close>
definition header_mem :: "byte_order \<Rightarrow> ipdisp_packet_header \<Rightarrow> u8 list" where
  "header_mem e h =
     mem32 e (magic h) @ mem32 e (version h) @ mem32 e (width h) @ mem32 e (height h) @
     mem32 e (format h) @ mem64 e (timestamp h) @ mem32 e (size_h h) @ mem32 e (reserved h)"

text \<open>\<open>sizeof(struct ipdisp_packet_header)\<close>: seven \<open>u32\<close> and one \<open>u64\<close>, packed.\<close>
definition sizeof_header :: nat where
  "sizeof_header = 4 + 4 + 4 + 4 + 4 + 8 + 4 + 4"

subsection \<open>Clients, device, and the kernel services the driver calls\<close>

text \<open>A \<open>struct socket *\<close>; \<open>NULL\<close> is 0.\<close>
type_synonym socket = nat

definition NULL :: socket where
  "NULL = 0"

record sockaddr_in =
  sin_addr :: u32
  sin_port :: u16

text \<open>
  \<open>struct ipdisp_client\<close>. The \<open>list\<close> member is the link of the registry list, which is
  the list \<open>clients\<close> of the device below; the mutex has no value.
\<close>
record ipdisp_client =
  sock :: socket
  addr :: sockaddr_in
  active :: bool

text \<open>
  \<open>struct ipdisp_device\<close>, the members the network and display paths use.
  \<open>framebuffer\<close> is the content of the memory \<open>idev->framebuffer\<close> points to: the length
  of the list is the size of the allocation.
\<close>
record ipdisp_device =
  dev_width :: u32
  dev_height :: u32
  framebuffer :: "u8 list"
  fb_size :: size_t
  listen_sock :: socket
  clients :: "ipdisp_client list"
  stream_wq :: bool
  streaming_enabled :: bool

text \<open>Lines written by \<open>ipdisp_info\<close>, \<open>ipdisp_warn\<close> and \<open>ipdisp_err\<close> (\<open>ipdisp_debug\<close>
  expands to nothing without \<open>DEBUG\<close>).\<close>
datatype log_msg =
    Warn_peer_name c_int
  | Info_new_client sockaddr_in
  | Warn_max_clients
  | Err_alloc_client
  | Warn_display_info c_int
  | Warn_no_source
  | Warn_unsupported_format u32

text \<open>
  What the driver does to the rest of the kernel: every \<open>kernel_sendmsg\<close> call (socket and
  the bytes the iovec describes), every \<open>sock_release\<close>, whether \<open>stream_work\<close> is pending
  on a workqueue, and the log.
\<close>
record kernel =
  sendmsg_calls :: "(socket \<times> u8 list) list"
  released :: "socket list"
  stream_work_pending :: bool
  klog :: "log_msg list"

text \<open>The transport's answer to one \<open>kernel_sendmsg\<close>: the returned \<open>int\<close>.\<close>
type_synonym transport = "socket \<Rightarrow> u8 list \<Rightarrow> c_int"

definition EIO :: c_int where
  "EIO = 5"

section \<open>ipdisp_network.c\<close>

subsection \<open>ipdisp_network_send_display_info\<close>

definition display_info_header :: "byte_order \<Rightarrow> ipdisp_device \<Rightarrow> u64 \<Rightarrow> ipdisp_packet_header" where
  "display_info_header e idev now =
     \<lparr>magic = cpu_to_be32 e IPDISP_MAGIC,
      version = cpu_to_be32 e IPDISP_VERSION,
      width = cpu_to_be32 e (dev_width idev),
      height = cpu_to_be32 e (dev_height idev),
      format = cpu_to_be32 e (format_value IPDISP_FORMAT_RGBA32),
      timestamp = cpu_to_be64 e now,
      size_h = 0,
      reserved = 0\<rparr>"

text \<open>
  \<open>now\<close> is the value of \<open>ktime_get_ns()\<close>, \<open>tx\<close> the transport. One iovec: the header,
  \<open>sizeof(header)\<close> bytes. \<open>ret != sizeof(header)\<close> compares in \<open>size_t\<close>, so \<open>ret\<close> is
  sign-extended.
\<close>
definition ipdisp_network_send_display_info ::
  "byte_order \<Rightarrow> transport \<Rightarrow> u64 \<Rightarrow> ipdisp_device \<Rightarrow> ipdisp_client \<Rightarrow> kernel \<Rightarrow> c_int \<times> kernel" where
  "ipdisp_network_send_display_info e tx now idev client k =
     (let header = display_info_header e idev now;
          iov = header_mem e header;
          ret = tx (sock client) iov;
          k1 = k\<lparr>sendmsg_calls := sendmsg_calls k @ [(sock client, iov)]\<rparr>
      in if (scast ret :: size_t) \<noteq> of_nat sizeof_header
         then (if sint ret < 0 then ret else - EIO,
               k1\<lparr>klog := klog k1 @ [Warn_display_info ret]\<rparr>)
         else (0, k1))"

subsection \<open>ipdisp_network_cleanup_clients\<close>

text \<open>\<open>list_for_each_entry_safe\<close>: an inactive entry is unlinked, its socket released when
  not \<open>NULL\<close>, and freed; an active one stays.\<close>
fun cleanup_loop :: "ipdisp_client list \<Rightarrow> socket list \<Rightarrow> ipdisp_client list \<times> socket list" where
  "cleanup_loop [] rel = ([], rel)"
| "cleanup_loop (client # rest) rel =
     (if \<not> active client
      then cleanup_loop rest (if sock client \<noteq> NULL then rel @ [sock client] else rel)
      else (case cleanup_loop rest rel of (rest', rel') \<Rightarrow> (client # rest', rel')))"

definition ipdisp_network_cleanup_clients :: "ipdisp_device \<times> kernel \<Rightarrow> ipdisp_device \<times> kernel" where
  "ipdisp_network_cleanup_clients s =
     (case s of (idev, k) \<Rightarrow>
        (case cleanup_loop (clients idev) (released k) of (cs, rel) \<Rightarrow>
           (idev\<lparr>clients := cs\<rparr>, k\<lparr>released := rel\<rparr>)))"

subsection \<open>ipdisp_network_thread\<close>

text \<open>What the kernel answers during one pass of the accept loop.\<close>
record thread_env =
  accept_ret :: c_int
  accept_sock :: socket
  getpeername_ret :: c_int
  peer_addr :: sockaddr_in
  kzalloc_ok :: bool
  sendmsg_ret :: transport
  ktime :: u64

text \<open>The loop that counts the active clients.\<close>
fun count_loop :: "ipdisp_client list \<Rightarrow> c_int \<Rightarrow> c_int" where
  "count_loop [] client_count = client_count"
| "count_loop (client # rest) client_count =
     count_loop rest (if active client then client_count + 1 else client_count)"

text \<open>
  One pass of the loop body up to and including the greeting (lines 24 to 86). The flag
  is \<open>False\<close> where the pass ends in \<open>continue\<close>, \<open>True\<close> where it goes on to the cleanup.
\<close>
definition thread_admit ::
  "byte_order \<Rightarrow> thread_env \<Rightarrow> ipdisp_device \<times> kernel \<Rightarrow> bool \<times> ipdisp_device \<times> kernel" where
  "thread_admit e env s =
     (case s of (idev, k) \<Rightarrow>
        if listen_sock idev = NULL then (False, idev, k)
        else if sint (accept_ret env) < 0 then (False, idev, k)
        else if sint (getpeername_ret env) < 0
        then (False, idev,
              k\<lparr>klog := klog k @ [Warn_peer_name (getpeername_ret env)],
                released := released k @ [accept_sock env]\<rparr>)
        else
          let k1 = k\<lparr>klog := klog k @ [Info_new_client (peer_addr env)]\<rparr>;
              client_count = count_loop (clients idev) 0
          in if sint IPDISP_MAX_CLIENTS \<le> sint client_count
             then (False, idev,
                   k1\<lparr>klog := klog k1 @ [Warn_max_clients],
                      released := released k1 @ [accept_sock env]\<rparr>)
             else if \<not> kzalloc_ok env
             then (False, idev,
                   k1\<lparr>klog := klog k1 @ [Err_alloc_client],
                      released := released k1 @ [accept_sock env]\<rparr>)
             else
               let client = \<lparr>sock = accept_sock env, addr = peer_addr env, active = True\<rparr>;
                   idev1 = idev\<lparr>clients := clients idev @ [client]\<rparr>
               in (True, idev1,
                   snd (ipdisp_network_send_display_info e (sendmsg_ret env) (ktime env)
                          idev1 client k1)))"

text \<open>One whole pass of the \<open>while\<close> body.\<close>
definition thread_iter ::
  "byte_order \<Rightarrow> thread_env \<Rightarrow> ipdisp_device \<times> kernel \<Rightarrow> ipdisp_device \<times> kernel" where
  "thread_iter e env s =
     (case thread_admit e env s of
        (True, s') \<Rightarrow> ipdisp_network_cleanup_clients s'
      | (False, s') \<Rightarrow> s')"

text \<open>The thread: the passes made until \<open>kthread_should_stop()\<close>, one \<open>thread_env\<close> each.\<close>
fun ipdisp_network_thread ::
  "byte_order \<Rightarrow> thread_env list \<Rightarrow> ipdisp_device \<times> kernel \<Rightarrow> ipdisp_device \<times> kernel" where
  "ipdisp_network_thread e [] s = s"
| "ipdisp_network_thread e (env # envs) s = ipdisp_network_thread e envs (thread_iter e env s)"

subsection \<open>ipdisp_network_send_frame\<close>

definition frame_header ::
  "byte_order \<Rightarrow> ipdisp_device \<Rightarrow> u64 \<Rightarrow> size_t \<Rightarrow> ipdisp_packet_header" where
  "frame_header e idev now sz =
     \<lparr>magic = cpu_to_be32 e IPDISP_MAGIC,
      version = cpu_to_be32 e IPDISP_VERSION,
      width = cpu_to_be32 e (dev_width idev),
      height = cpu_to_be32 e (dev_height idev),
      format = cpu_to_be32 e (format_value IPDISP_FORMAT_RGBA32),
      timestamp = cpu_to_be64 e now,
      size_h = cpu_to_be32 e (ucast sz),
      reserved = 0\<rparr>"

text \<open>
  The body of \<open>list_for_each_entry\<close> for one client: \<open>msg\<close> is what the two iovecs
  describe, \<open>total_len\<close> is \<open>sizeof(header) + size\<close>.
\<close>
definition send_frame_body ::
  "transport \<Rightarrow> u8 list \<Rightarrow> size_t \<Rightarrow> ipdisp_client \<Rightarrow> kernel \<Rightarrow> c_int \<Rightarrow>
   ipdisp_client \<times> kernel \<times> c_int" where
  "send_frame_body tx msg total_len client k clients_sent =
     (if \<not> active client then (client, k, clients_sent)
      else
        let ret = tx (sock client) msg;
            k1 = k\<lparr>sendmsg_calls := sendmsg_calls k @ [(sock client, msg)]\<rparr>
        in if sint ret < 0 then (client\<lparr>active := False\<rparr>, k1, clients_sent)
           else if (scast ret :: size_t) \<noteq> total_len then (client\<lparr>active := False\<rparr>, k1, clients_sent)
           else (client, k1, clients_sent + 1))"

fun send_frame_loop ::
  "transport \<Rightarrow> u8 list \<Rightarrow> size_t \<Rightarrow> ipdisp_client list \<Rightarrow> kernel \<Rightarrow> c_int \<Rightarrow>
   ipdisp_client list \<times> kernel \<times> c_int" where
  "send_frame_loop tx msg total_len [] k clients_sent = ([], k, clients_sent)"
| "send_frame_loop tx msg total_len (client # rest) k clients_sent =
     (case send_frame_body tx msg total_len client k clients_sent of (client', k1, n1) \<Rightarrow>
        (case send_frame_loop tx msg total_len rest k1 n1 of (rest', k2, n2) \<Rightarrow>
           (client' # rest', k2, n2)))"

text \<open>
  \<open>data\<close> is the \<open>size\<close> bytes at the pointer \<open>data\<close>, so \<open>size\<close> is its length. The result
  is the returned \<open>clients_sent\<close> with the new state.
\<close>
definition ipdisp_network_send_frame ::
  "byte_order \<Rightarrow> transport \<Rightarrow> u64 \<Rightarrow> u8 list \<Rightarrow> ipdisp_device \<times> kernel \<Rightarrow>
   c_int \<times> ipdisp_device \<times> kernel" where
  "ipdisp_network_send_frame e tx now data s =
     (case s of (idev, k) \<Rightarrow>
        if clients idev = [] then (0, idev, k)
        else
          let sz = (of_nat (length data) :: size_t);
              header = frame_header e idev now sz;
              msg = header_mem e header @ data;
              total_len = of_nat sizeof_header + sz
          in (case send_frame_loop tx msg total_len (clients idev) k 0 of
                (cs, k1, clients_sent) \<Rightarrow>
                  (clients_sent, idev\<lparr>clients := cs\<rparr>,
                   if clients_sent = 0 then k1\<lparr>stream_work_pending := True\<rparr> else k1)))"

subsection \<open>ipdisp_network_cleanup\<close>

text \<open>At shutdown every entry is unlinked and freed, active or not.\<close>
fun close_all_loop :: "ipdisp_client list \<Rightarrow> socket list \<Rightarrow> socket list" where
  "close_all_loop [] rel = rel"
| "close_all_loop (client # rest) rel =
     close_all_loop rest (if sock client \<noteq> NULL then rel @ [sock client] else rel)"

definition ipdisp_network_cleanup :: "ipdisp_device \<times> kernel \<Rightarrow> ipdisp_device \<times> kernel" where
  "ipdisp_network_cleanup s =
     (case s of (idev, k) \<Rightarrow>
        let rel = (if listen_sock idev \<noteq> NULL then released k @ [listen_sock idev] else released k)
        in (idev\<lparr>listen_sock := NULL, clients := []\<rparr>,
            k\<lparr>released := close_all_loop (clients idev) rel\<rparr>))"

section \<open>ipdisp_drm.c: ipdisp_pipe_update\<close>

text \<open>\<open>fourcc_code('X','R','2','4')\<close> and \<open>fourcc_code('A','R','2','4')\<close>.\<close>
definition DRM_FORMAT_XRGB8888 :: u32 where
  "DRM_FORMAT_XRGB8888 = 0x34325258"

definition DRM_FORMAT_ARGB8888 :: u32 where
  "DRM_FORMAT_ARGB8888 = 0x34325241"

text \<open>
  What \<open>ipdisp_pipe_update\<close> reads of \<open>struct drm_framebuffer\<close>: \<open>format->format\<close>,
  \<open>height\<close> and \<open>pitches[0]\<close> (both \<open>unsigned int\<close>), and \<open>vaddr\<close> of the DMA object
  behind \<open>obj[0]\<close>: \<open>None\<close> when it is \<open>NULL\<close>, else the content of the memory there.
\<close>
record drm_framebuffer =
  fb_format :: u32
  fb_height :: u32
  fb_pitches0 :: u32
  fb_vaddr :: "u8 list option"

datatype fault = Out_of_bounds

text \<open>\<open>memcpy(dst, src, n)\<close>: an access past the end of either buffer is a fault.\<close>
definition memcpy :: "u8 list \<Rightarrow> u8 list \<Rightarrow> size_t \<Rightarrow> fault + u8 list" where
  "memcpy dst src n =
     (if unat n \<le> length dst \<and> unat n \<le> length src
      then Inr (take (unat n) src @ drop (unat n) dst)
      else Inl Out_of_bounds)"

text \<open>\<open>min_t(size_t, x, y)\<close>: both operands cast to \<open>size_t\<close>, then \<open>x < y ? x : y\<close>.\<close>
definition min_t :: "size_t \<Rightarrow> size_t \<Rightarrow> size_t" where
  "min_t x y = (if x < y then x else y)"

text \<open>\<open>fb->height * fb->pitches[0]\<close> is a product of two \<open>unsigned int\<close>: it wraps at
  32 bits before it is widened to \<open>size_t\<close>.\<close>
definition copy_size :: "ipdisp_device \<Rightarrow> drm_framebuffer \<Rightarrow> size_t" where
  "copy_size idev fb = min_t (fb_size idev) (ucast (fb_height fb * fb_pitches0 fb))"

definition queue_stream_work :: "ipdisp_device \<Rightarrow> kernel \<Rightarrow> kernel" where
  "queue_stream_work idev k = (if stream_wq idev then k\<lparr>stream_work_pending := True\<rparr> else k)"

text \<open>\<open>fb\<close> is \<open>pipe->plane.state->fb\<close>, \<open>None\<close> when it is \<open>NULL\<close>.\<close>
definition ipdisp_pipe_update ::
  "drm_framebuffer option \<Rightarrow> ipdisp_device \<times> kernel \<Rightarrow> fault + ipdisp_device \<times> kernel" where
  "ipdisp_pipe_update fbo s =
     (case s of (idev, k) \<Rightarrow>
        (case fbo of
           None \<Rightarrow> Inr (idev, k)
         | Some fb \<Rightarrow>
             if \<not> streaming_enabled idev then Inr (idev, k)
             else
               (case fb_vaddr fb of
                  None \<Rightarrow> Inr (idev, k\<lparr>klog := klog k @ [Warn_no_source]\<rparr>)
                | Some src_addr \<Rightarrow>
                    if fb_format fb = DRM_FORMAT_XRGB8888 \<or> fb_format fb = DRM_FORMAT_ARGB8888
                    then
                      (case memcpy (framebuffer idev) src_addr (copy_size idev fb) of
                         Inl f \<Rightarrow> Inl f
                       | Inr mem \<Rightarrow>
                           Inr (idev\<lparr>framebuffer := mem\<rparr>, queue_stream_work idev k))
                    else
                      Inr (idev,
                           queue_stream_work idev
                             (k\<lparr>klog := klog k @ [Warn_unsupported_format (fb_format fb)]\<rparr>)))))"

section \<open>The header decoder\<close>

text \<open>
  Modelled from the spec: the error of the decoder, which the repository does not have.
\<close>
datatype protocol_error = ProtocolError

text \<open>
  Modelled from the spec: the value of a field of the wire table, a big-endian byte
  sequence, for the decoder the repository does not have.
\<close>
fun be_value :: "u8 list \<Rightarrow> 'a::len word" where
  "be_value [] = 0"
| "be_value (b # bs) = push_bit (8 * length bs) (ucast b) OR be_value bs"

text \<open>
  Modelled from the spec: the repository has no decoder (its clients only receive), and
  the spec asks for one symmetric to the encoder. The fields are read at the offsets of
  the spec's wire table (0, 4, 8, 12, 16, 20, 28, 32; the timestamp is 8 bytes, the
  others 4), big-endian.
\<close>
definition header_fields :: "u8 list \<Rightarrow> ipdisp_packet_header" where
  "header_fields bytes =
     \<lparr>magic = be_value (take 4 bytes),
      version = be_value (take 4 (drop 4 bytes)),
      width = be_value (take 4 (drop 8 bytes)),
      height = be_value (take 4 (drop 12 bytes)),
      format = be_value (take 4 (drop 16 bytes)),
      timestamp = be_value (take 8 (drop 20 bytes)),
      size_h = be_value (take 4 (drop 28 bytes)),
      reserved = be_value (take 4 (drop 32 bytes))\<rparr>"

text \<open>
  Modelled from the spec: decoding fails with \<open>ProtocolError\<close> on an undersized buffer
  (shorter than the last field of the wire table ends) and on a malformed one (the magic
  or the version is not the protocol's constant).
\<close>
definition decode_header :: "u8 list \<Rightarrow> protocol_error + ipdisp_packet_header" where
  "decode_header bytes =
     (if length bytes < 36 then Inl ProtocolError
      else
        let h = header_fields bytes
        in if magic h \<noteq> IPDISP_MAGIC \<or> version h \<noteq> IPDISP_VERSION then Inl ProtocolError
           else Inr h)"

text \<open>
  The encoder for arbitrary field values: each field stored through \<open>cpu_to_be32\<close> or
  \<open>cpu_to_be64\<close>, as both senders store the fields they set, and the struct handed to the
  socket as it lies in memory.
\<close>
definition cpu_to_be_header :: "byte_order \<Rightarrow> ipdisp_packet_header \<Rightarrow> ipdisp_packet_header" where
  "cpu_to_be_header e h =
     \<lparr>magic = cpu_to_be32 e (magic h),
      version = cpu_to_be32 e (version h),
      width = cpu_to_be32 e (width h),
      height = cpu_to_be32 e (height h),
      format = cpu_to_be32 e (format h),
      timestamp = cpu_to_be64 e (timestamp h),
      size_h = cpu_to_be32 e (size_h h),
      reserved = cpu_to_be32 e (reserved h)\<rparr>"

definition encode_header :: "byte_order \<Rightarrow> ipdisp_packet_header \<Rightarrow> u8 list" where
  "encode_header e h = header_mem e (cpu_to_be_header e h)"

section \<open>Runs of the registry\<close>

text \<open>
  The registry is touched under \<open>clients_lock\<close> by the accept thread (admission, then the
  cleanup pass), by the stream work (the broadcast) and by the shutdown. A run is any
  interleaving of these.
\<close>
datatype event =
    Ev_admit thread_env
  | Ev_cleanup
  | Ev_frame transport u64 "u8 list"
  | Ev_shutdown

fun step :: "byte_order \<Rightarrow> event \<Rightarrow> ipdisp_device \<times> kernel \<Rightarrow> ipdisp_device \<times> kernel" where
  "step e (Ev_admit env) s = snd (thread_admit e env s)"
| "step e Ev_cleanup s = ipdisp_network_cleanup_clients s"
| "step e (Ev_frame tx now data) s = snd (ipdisp_network_send_frame e tx now data s)"
| "step e Ev_shutdown s = ipdisp_network_cleanup s"

fun run :: "byte_order \<Rightarrow> event list \<Rightarrow> ipdisp_device \<times> kernel \<Rightarrow> ipdisp_device \<times> kernel" where
  "run e [] s = s"
| "run e (ev # evs) s = run e evs (step e ev s)"

definition active_count :: "ipdisp_client list \<Rightarrow> nat" where
  "active_count cs = length (filter active cs)"

text \<open>The two outcomes of a \<open>kernel_sendmsg\<close> that the broadcast treats as a failure:
  a negative return, or a return different from \<open>sizeof(header) + size\<close>.\<close>
definition send_failed :: "size_t \<Rightarrow> c_int \<Rightarrow> bool" where
  "send_failed total_len ret \<longleftrightarrow> sint ret < 0 \<or> (scast ret :: size_t) \<noteq> total_len"

text \<open>What the broadcast hands to \<open>kernel_sendmsg\<close> for every client: header, then payload.\<close>
definition frame_msg :: "byte_order \<Rightarrow> ipdisp_device \<Rightarrow> u64 \<Rightarrow> u8 list \<Rightarrow> u8 list" where
  "frame_msg e idev now data =
     header_mem e (frame_header e idev now (of_nat (length data))) @ data"

definition frame_total_len :: "u8 list \<Rightarrow> size_t" where
  "frame_total_len data = of_nat sizeof_header + of_nat (length data)"

text \<open>The client entry the broadcast leaves for \<open>c\<close>.\<close>
definition after_send :: "transport \<Rightarrow> u8 list \<Rightarrow> size_t \<Rightarrow> ipdisp_client \<Rightarrow> ipdisp_client" where
  "after_send tx msg total_len c =
     (if active c \<and> send_failed total_len (tx (sock c) msg) then c\<lparr>active := False\<rparr> else c)"

text \<open>The greeting on the wire.\<close>
definition greeting_bytes :: "ipdisp_device \<Rightarrow> u64 \<Rightarrow> u8 list" where
  "greeting_bytes idev now =
     be32_bytes IPDISP_MAGIC @ be32_bytes IPDISP_VERSION @ be32_bytes (dev_width idev) @
     be32_bytes (dev_height idev) @ be32_bytes 0 @ be64_bytes now @ be32_bytes 0 @ be32_bytes 0"

section \<open>Example states\<close>

definition example_device :: ipdisp_device where
  "example_device =
     \<lparr>dev_width = 1920, dev_height = 1080, framebuffer = [0, 0, 0, 0], fb_size = 4,
      listen_sock = 1, clients = [], stream_wq = True, streaming_enabled = True\<rparr>"

definition example_kernel :: kernel where
  "example_kernel =
     \<lparr>sendmsg_calls = [], released = [], stream_work_pending = False, klog = []\<rparr>"

definition example_client :: "socket \<Rightarrow> ipdisp_client" where
  "example_client s =
     \<lparr>sock = s, addr = \<lparr>sin_addr = 0x7f000001, sin_port = 40000\<rparr>, active = True\<rparr>"

text \<open>An accept pass in which every kernel call succeeds; the transport is \<open>tx\<close>.\<close>
definition example_env :: "socket \<Rightarrow> transport \<Rightarrow> thread_env" where
  "example_env s tx =
     \<lparr>accept_ret = 0, accept_sock = s, getpeername_ret = 0,
      peer_addr = \<lparr>sin_addr = 0x7f000001, sin_port = 40000\<rparr>,
      kzalloc_ok = True, sendmsg_ret = tx, ktime = 5\<rparr>"

text \<open>Four connections admitted one after the other.\<close>
definition four_admits :: "event list" where
  "four_admits =
     [Ev_admit (example_env 7 (\<lambda>s m. 36)), Ev_admit (example_env 8 (\<lambda>s m. 36)),
      Ev_admit (example_env 9 (\<lambda>s m. 36)), Ev_admit (example_env 10 (\<lambda>s m. 36))]"

text \<open>Three active clients, and a transport on which socket 8 is a broken pipe while
  the others take all 39 bytes of a frame with a 3-byte payload.\<close>
definition three_clients :: ipdisp_device where
  "three_clients =
     example_device\<lparr>clients := [example_client 7, example_client 8, example_client 9]\<rparr>"

definition broken_pipe_on_8 :: transport where
  "broken_pipe_on_8 s m = (if s = 8 then - 32 else 39)"

text \<open>A header as the senders fill it, with payload size \<open>n\<close>.\<close>
definition example_header :: "u32 \<Rightarrow> ipdisp_packet_header" where
  "example_header n =
     \<lparr>magic = IPDISP_MAGIC, version = IPDISP_VERSION, width = 1920, height = 1080,
      format = 0, timestamp = 5, size_h = n, reserved = 0\<rparr>"

text \<open>A framebuffer of \<open>h\<close> rows of \<open>p\<close> bytes whose pixel memory holds \<open>src\<close>.\<close>
definition example_fb :: "u32 \<Rightarrow> u32 \<Rightarrow> u8 list \<Rightarrow> drm_framebuffer" where
  "example_fb h p src =
     \<lparr>fb_format = DRM_FORMAT_XRGB8888, fb_height = h, fb_pitches0 = p, fb_vaddr = Some src\<rparr>"

section \<open>Byte-order lemmas\<close>

lemma mask_bytes32:
  "(0xff :: u32) = mask 8" "(0xff00 :: u32) = push_bit 8 (mask 8)"
  "(0xff0000 :: u32) = push_bit 16 (mask 8)" "(0xff000000 :: u32) = push_bit 24 (mask 8)"
  by (simp_all add: mask_eq_exp_minus_1)

lemma mask_bytes64:
  "(0xff :: u64) = mask 8" "(0xff00 :: u64) = push_bit 8 (mask 8)"
  "(0xff0000 :: u64) = push_bit 16 (mask 8)" "(0xff000000 :: u64) = push_bit 24 (mask 8)"
  "(0xff00000000 :: u64) = push_bit 32 (mask 8)"
  "(0xff0000000000 :: u64) = push_bit 40 (mask 8)"
  "(0xff000000000000 :: u64) = push_bit 48 (mask 8)"
  "(0xff00000000000000 :: u64) = push_bit 56 (mask 8)"
  by (simp_all add: mask_eq_exp_minus_1)

lemma swab32_bytes:
  "ucast (swab32 x) = (ucast (drop_bit 24 x) :: u8)"
  "ucast (drop_bit 8 (swab32 x)) = (ucast (drop_bit 16 x) :: u8)"
  "ucast (drop_bit 16 (swab32 x)) = (ucast (drop_bit 8 x) :: u8)"
  "ucast (drop_bit 24 (swab32 x)) = (ucast x :: u8)"
  unfolding swab32_def mask_bytes32
  by (rule bit_word_eqI; auto simp add: bit_simps)+

lemma swab64_bytes:
  "ucast (swab64 x) = (ucast (drop_bit 56 x) :: u8)"
  "ucast (drop_bit 8 (swab64 x)) = (ucast (drop_bit 48 x) :: u8)"
  "ucast (drop_bit 16 (swab64 x)) = (ucast (drop_bit 40 x) :: u8)"
  "ucast (drop_bit 24 (swab64 x)) = (ucast (drop_bit 32 x) :: u8)"
  "ucast (drop_bit 32 (swab64 x)) = (ucast (drop_bit 24 x) :: u8)"
  "ucast (drop_bit 40 (swab64 x)) = (ucast (drop_bit 16 x) :: u8)"
  "ucast (drop_bit 48 (swab64 x)) = (ucast (drop_bit 8 x) :: u8)"
  "ucast (drop_bit 56 (swab64 x)) = (ucast x :: u8)"
  unfolding swab64_def mask_bytes64
  by (rule bit_word_eqI; auto simp add: bit_simps)+

lemma mem32_cpu_to_be32: "mem32 e (cpu_to_be32 e x) = be32_bytes x"
  by (cases e) (simp_all add: mem32_def cpu_to_be32_def be32_bytes_def swab32_bytes)

lemma mem64_cpu_to_be64: "mem64 e (cpu_to_be64 e x) = be64_bytes x"
  by (cases e) (simp_all add: mem64_def cpu_to_be64_def be64_bytes_def swab64_bytes)

lemma mem32_zero: "mem32 e 0 = be32_bytes 0"
  by (cases e) (simp_all add: mem32_def be32_bytes_def)

lemma length_mem32: "length (mem32 e x) = 4"
  by (cases e) (simp_all add: mem32_def be32_bytes_def)

lemma length_mem64: "length (mem64 e x) = 8"
  by (cases e) (simp_all add: mem64_def be64_bytes_def)

lemma length_header_mem: "length (header_mem e h) = sizeof_header"
  by (simp add: header_mem_def sizeof_header_def length_mem32 length_mem64)

section \<open>Integer conversions\<close>

lemma sint_of_nat_small: "n < 2 ^ 31 \<Longrightarrow> sint (of_nat n :: c_int) = int n"
  by (simp add: signed_of_nat signed_take_bit_int_eq_self)

lemma scast_back: "(scast (scast (r :: c_int) :: size_t) :: c_int) = r"
  by (rule scast_up_scast_id) (simp add: is_up)

lemma scast_eq_iff: "((scast (r :: c_int) :: size_t) = scast r') = (r = r')"
  by (metis scast_back)

lemma scast_eq_36: "((scast (r :: c_int) :: size_t) = 36) = (r = 36)"
  using scast_eq_iff [of r 36] by simp

lemma unat_scast_nonneg:
  assumes "0 \<le> sint (r :: c_int)"
  shows "unat (scast r :: size_t) = nat (sint r)"
proof -
  have "sint r < 2 ^ 31"
    using sint_lt [of r] by simp
  then have "take_bit 64 (sint r) = sint r"
    using assms by (simp add: take_bit_int_eq_self)
  moreover have "uint (scast r :: size_t) = take_bit 64 (sint r)"
    by (simp add: scast_eq uint_word_of_int take_bit_eq_mod del: of_int_sint)
  ultimately show ?thesis
    by (simp add: unat_eq_nat_uint)
qed

lemma unat_frame_total_len:
  "length data + sizeof_header < 2 ^ 64 \<Longrightarrow>
   unat (frame_total_len data) = sizeof_header + length data"
  by (simp add: frame_total_len_def unat_word_ariths unat_of_nat sizeof_header_def)

section \<open>The loops in closed form\<close>

lemma count_loop_eq: "count_loop cs n = n + of_nat (active_count cs)"
  by (induction cs arbitrary: n) (simp_all add: active_count_def)

lemma cleanup_loop_eq:
  "cleanup_loop cs rel =
     (filter active cs, rel @ map sock (filter (\<lambda>c. \<not> active c \<and> sock c \<noteq> NULL) cs))"
  by (induction cs arbitrary: rel) simp_all

lemma close_all_loop_eq:
  "close_all_loop cs rel = rel @ map sock (filter (\<lambda>c. sock c \<noteq> NULL) cs)"
  by (induction cs arbitrary: rel) simp_all

lemma send_frame_body_eq:
  "send_frame_body tx msg total_len c k n =
     (if active c then
        (after_send tx msg total_len c,
         k\<lparr>sendmsg_calls := sendmsg_calls k @ [(sock c, msg)]\<rparr>,
         if send_failed total_len (tx (sock c) msg) then n else n + 1)
      else (c, k, n))"
  by (simp add: send_frame_body_def send_failed_def after_send_def Let_def)

lemma send_frame_loop_eq:
  "send_frame_loop tx msg total_len cs k n =
     (map (after_send tx msg total_len) cs,
      k\<lparr>sendmsg_calls := sendmsg_calls k @ map (\<lambda>c. (sock c, msg)) (filter active cs)\<rparr>,
      n + of_nat (length (filter (\<lambda>c. active c \<and> \<not> send_failed total_len (tx (sock c) msg)) cs)))"
  by (induction cs arbitrary: k n) (simp_all add: send_frame_body_eq after_send_def)

section \<open>The header on the wire\<close>

lemma display_info_header_mem:
  "header_mem e (display_info_header e idev now) = greeting_bytes idev now"
  by (simp add: header_mem_def display_info_header_def greeting_bytes_def mem32_cpu_to_be32
      mem64_cpu_to_be64 mem32_zero)

lemma send_display_info_calls:
  "sendmsg_calls (snd (ipdisp_network_send_display_info e tx now idev client k)) =
     sendmsg_calls k @ [(sock client, greeting_bytes idev now)]"
  by (simp add: ipdisp_network_send_display_info_def Let_def display_info_header_mem)

lemma example_greeting_bytes:
  "greeting_bytes example_device 5 =
     [0x49, 0x50, 0x44, 0x53, 0, 0, 0, 1, 0, 0, 7, 0x80, 0, 0, 4, 0x38, 0, 0, 0, 0,
      0, 0, 0, 0, 0, 0, 0, 5, 0, 0, 0, 0, 0, 0, 0, 0]"
  by (simp add: greeting_bytes_def example_device_def be32_bytes_def be64_bytes_def
      IPDISP_MAGIC_def IPDISP_VERSION_def drop_bit_eq_div)

section \<open>The accept pass\<close>

lemma admit_check:
  "active_count cs \<le> 4 \<Longrightarrow>
   (sint IPDISP_MAX_CLIENTS \<le> sint (count_loop cs 0)) = (active_count cs = 4)"
  by (simp add: count_loop_eq IPDISP_MAX_CLIENTS_def sint_of_nat_small)

lemma thread_admit_success:
  assumes "listen_sock idev \<noteq> NULL" "0 \<le> sint (accept_ret env)"
    "0 \<le> sint (getpeername_ret env)" "active_count (clients idev) < 4" "kzalloc_ok env"
  shows "thread_admit e env (idev, k) =
     (True,
      idev\<lparr>clients := clients idev @
         [\<lparr>sock = accept_sock env, addr = peer_addr env, active = True\<rparr>]\<rparr>,
      snd (ipdisp_network_send_display_info e (sendmsg_ret env) (ktime env)
        (idev\<lparr>clients := clients idev @
           [\<lparr>sock = accept_sock env, addr = peer_addr env, active = True\<rparr>]\<rparr>)
        \<lparr>sock = accept_sock env, addr = peer_addr env, active = True\<rparr>
        (k\<lparr>klog := klog k @ [Info_new_client (peer_addr env)]\<rparr>)))"
  using assms admit_check [of "clients idev"]
  by (simp add: thread_admit_def Let_def)

lemma thread_admit_flag:
  assumes "fst (thread_admit e env (idev, k))"
  shows "thread_admit e env (idev, k) =
     (True,
      idev\<lparr>clients := clients idev @
         [\<lparr>sock = accept_sock env, addr = peer_addr env, active = True\<rparr>]\<rparr>,
      snd (ipdisp_network_send_display_info e (sendmsg_ret env) (ktime env)
        (idev\<lparr>clients := clients idev @
           [\<lparr>sock = accept_sock env, addr = peer_addr env, active = True\<rparr>]\<rparr>)
        \<lparr>sock = accept_sock env, addr = peer_addr env, active = True\<rparr>
        (k\<lparr>klog := klog k @ [Info_new_client (peer_addr env)]\<rparr>)))"
  using assms by (simp add: thread_admit_def Let_def split: if_splits)

lemma greeting_bytes_clients [simp]:
  "greeting_bytes (idev\<lparr>clients := cs\<rparr>) now = greeting_bytes idev now"
  by (simp add: greeting_bytes_def)

lemma example_admit:
  "thread_admit LittleEndian (example_env 7 (\<lambda>s m. 36)) (example_device, example_kernel) =
   (True, example_device\<lparr>clients := [example_client 7]\<rparr>,
    example_kernel\<lparr>klog := [Info_new_client (peer_addr (example_env 7 (\<lambda>s m. 36)))],
       sendmsg_calls := [(7, greeting_bytes example_device 5)]\<rparr>)"
  by (simp add: thread_admit_def example_env_def example_device_def example_kernel_def
     example_client_def Let_def NULL_def IPDISP_MAX_CLIENTS_def
     ipdisp_network_send_display_info_def display_info_header_mem sizeof_header_def
     greeting_bytes_def)

section \<open>The registry operations in closed form\<close>

lemma cleanup_clients_eq:
  "ipdisp_network_cleanup_clients (idev, k) =
     (idev\<lparr>clients := filter active (clients idev)\<rparr>,
      k\<lparr>released := released k @
          map sock (filter (\<lambda>c. \<not> active c \<and> sock c \<noteq> NULL) (clients idev))\<rparr>)"
  by (simp add: ipdisp_network_cleanup_clients_def cleanup_loop_eq)

lemma send_frame_eq:
  "ipdisp_network_send_frame e tx now data (idev, k) =
     (if clients idev = [] then (0, idev, k)
      else
        (of_nat (length (filter (\<lambda>c. active c \<and>
             \<not> send_failed (frame_total_len data) (tx (sock c) (frame_msg e idev now data)))
             (clients idev))),
         idev\<lparr>clients :=
           map (after_send tx (frame_msg e idev now data) (frame_total_len data)) (clients idev)\<rparr>,
         if (of_nat (length (filter (\<lambda>c. active c \<and>
             \<not> send_failed (frame_total_len data) (tx (sock c) (frame_msg e idev now data)))
             (clients idev))) :: c_int) = 0
         then k\<lparr>sendmsg_calls := sendmsg_calls k @
                 map (\<lambda>c. (sock c, frame_msg e idev now data)) (filter active (clients idev)),
                stream_work_pending := True\<rparr>
         else k\<lparr>sendmsg_calls := sendmsg_calls k @
                 map (\<lambda>c. (sock c, frame_msg e idev now data)) (filter active (clients idev))\<rparr>))"
  by (simp add: ipdisp_network_send_frame_def Let_def send_frame_loop_eq frame_msg_def
      frame_total_len_def)

lemma send_frame_clients:
  "clients (fst (snd (ipdisp_network_send_frame e tx now data (idev, k)))) =
     map (after_send tx (frame_msg e idev now data) (frame_total_len data)) (clients idev)"
  by (simp add: send_frame_eq)

lemma active_count_after_send:
  "active_count (map (after_send tx msg total_len) cs) \<le> active_count cs"
  by (induction cs) (simp_all add: active_count_def after_send_def)

lemma active_count_filter [simp]: "active_count (filter active cs) = active_count cs"
  by (simp add: active_count_def)

lemma thread_admit_clients:
  "clients (fst (snd (thread_admit e env (idev, k)))) =
     (if fst (thread_admit e env (idev, k))
      then clients idev @ [\<lparr>sock = accept_sock env, addr = peer_addr env, active = True\<rparr>]
      else clients idev)"
  by (simp add: thread_admit_def Let_def)

lemma thread_admit_room:
  "fst (thread_admit e env (idev, k)) \<Longrightarrow> active_count (clients idev) \<le> 4 \<Longrightarrow>
   active_count (clients idev) < 4"
  using admit_check [of "clients idev"]
  by (auto simp add: thread_admit_def Let_def split: if_splits)

lemma step_active_count:
  assumes "active_count (clients (fst s)) \<le> 4"
  shows "active_count (clients (fst (step e ev s))) \<le> 4"
proof (cases s)
  case (Pair idev k)
  show ?thesis
  proof (cases ev)
    case (Ev_admit env)
    show ?thesis
    proof (cases "fst (thread_admit e env (idev, k))")
      case True
      then have "active_count (clients idev) < 4"
        using assms Pair thread_admit_room by auto
      then show ?thesis
        using True Pair Ev_admit by (simp add: thread_admit_clients) (simp add: active_count_def)
    next
      case False
      then show ?thesis
        using assms Pair Ev_admit by (simp add: thread_admit_clients)
    qed
  next
    case Ev_cleanup
    then show ?thesis
      using assms Pair by (simp add: cleanup_clients_eq)
  next
    case (Ev_frame tx now data)
    then show ?thesis
      using assms Pair
        active_count_after_send [of tx "frame_msg e idev now data" "frame_total_len data" "clients idev"]
      by (simp add: send_frame_clients)
  next
    case Ev_shutdown
    then show ?thesis
      using Pair by (simp add: ipdisp_network_cleanup_def Let_def active_count_def)
  qed
qed

lemma run_active_count:
  "active_count (clients (fst s)) \<le> 4 \<Longrightarrow> active_count (clients (fst (run e evs s))) \<le> 4"
  by (induction evs arbitrary: s) (simp_all add: step_active_count)

lemma thread_iter_full:
  assumes "listen_sock idev \<noteq> NULL" "0 \<le> sint (accept_ret env)"
    "0 \<le> sint (getpeername_ret env)" "active_count (clients idev) = 4"
  shows "thread_iter e env (idev, k) =
     (idev, k\<lparr>klog := klog k @ [Info_new_client (peer_addr env), Warn_max_clients],
              released := released k @ [accept_sock env]\<rparr>)"
  using assms admit_check [of "clients idev"]
  by (simp add: thread_iter_def thread_admit_def Let_def)

lemma example_four_clients:
  "clients (fst (run LittleEndian four_admits (example_device, example_kernel))) =
     [example_client 7, example_client 8, example_client 9, example_client 10]"
  by (simp add: four_admits_def thread_admit_def example_env_def example_device_def
      example_client_def Let_def NULL_def IPDISP_MAX_CLIENTS_def)

lemma example_four_listen:
  "listen_sock (fst (run LittleEndian four_admits (example_device, example_kernel))) = 1"
  by (simp add: four_admits_def thread_admit_def example_env_def example_device_def
      example_client_def Let_def NULL_def IPDISP_MAX_CLIENTS_def)

lemma example_four_released:
  "released (snd (run LittleEndian four_admits (example_device, example_kernel))) = []"
  by (simp add: four_admits_def thread_admit_def example_env_def example_device_def
      example_client_def Let_def NULL_def IPDISP_MAX_CLIENTS_def example_kernel_def
      ipdisp_network_send_display_info_def)

lemma thread_iter_as_run:
  "thread_iter e env s =
     (if fst (thread_admit e env s) then run e [Ev_admit env, Ev_cleanup] s
      else run e [Ev_admit env] s)"
  by (cases "thread_admit e env s") (auto simp add: thread_iter_def)

lemma send_display_info_fail:
  assumes "sint (tx (sock client) (greeting_bytes idev now)) \<noteq> int sizeof_header"
  shows "snd (ipdisp_network_send_display_info e tx now idev client k) =
     k\<lparr>sendmsg_calls := sendmsg_calls k @ [(sock client, greeting_bytes idev now)],
       klog := klog k @ [Warn_display_info (tx (sock client) (greeting_bytes idev now))]\<rparr>"
proof -
  have "tx (sock client) (greeting_bytes idev now) \<noteq> 36"
    using assms by (auto simp add: sizeof_header_def)
  then show ?thesis
    by (simp add: ipdisp_network_send_display_info_def Let_def display_info_header_mem
        sizeof_header_def scast_eq_36)
qed

lemma frame_header_mem:
  "header_mem e (frame_header e idev now sz) =
     be32_bytes IPDISP_MAGIC @ be32_bytes IPDISP_VERSION @ be32_bytes (dev_width idev) @
     be32_bytes (dev_height idev) @ be32_bytes 0 @ be64_bytes now @ be32_bytes (ucast sz) @
     be32_bytes 0"
  by (simp add: header_mem_def frame_header_def mem32_cpu_to_be32 mem64_cpu_to_be64 mem32_zero)

lemma short_send_failed:
  assumes "length data + sizeof_header < 2 ^ 64"
    and "sint ret < 0 \<or> nat (sint ret) < sizeof_header + length data"
  shows "send_failed (frame_total_len data) ret"
proof (cases "sint ret < 0")
  case True
  then show ?thesis by (simp add: send_failed_def)
next
  case False
  then have "unat (scast ret :: size_t) = nat (sint ret)"
    by (simp add: unat_scast_nonneg)
  moreover have "nat (sint ret) < sizeof_header + length data"
    using assms(2) False by simp
  ultimately have "unat (scast ret :: size_t) \<noteq> unat (frame_total_len data)"
    using assms(1) by (simp add: unat_frame_total_len)
  then show ?thesis
    by (auto simp add: send_failed_def)
qed

lemma example_frame_msg:
  "frame_msg LittleEndian three_clients 5 [1, 2, 3] =
     [0x49, 0x50, 0x44, 0x53, 0, 0, 0, 1, 0, 0, 7, 0x80, 0, 0, 4, 0x38, 0, 0, 0, 0,
      0, 0, 0, 0, 0, 0, 0, 5, 0, 0, 0, 3, 0, 0, 0, 0, 1, 2, 3]"
  by (simp add: frame_msg_def frame_header_mem three_clients_def example_device_def
      be32_bytes_def be64_bytes_def IPDISP_MAGIC_def IPDISP_VERSION_def drop_bit_eq_div)

lemma network_cleanup_eq:
  "ipdisp_network_cleanup (idev, k) =
     (idev\<lparr>listen_sock := NULL, clients := []\<rparr>,
      k\<lparr>released :=
          (if listen_sock idev \<noteq> NULL then released k @ [listen_sock idev] else released k) @
          map sock (filter (\<lambda>c. sock c \<noteq> NULL) (clients idev))\<rparr>)"
  by (simp add: ipdisp_network_cleanup_def Let_def close_all_loop_eq)

section \<open>Decoding\<close>

lemma be_value_4:
  "(be_value [a, b, c, d] :: u32) =
     push_bit 24 (ucast a) OR push_bit 16 (ucast b) OR push_bit 8 (ucast c) OR ucast d"
  by simp

lemma be_value_8:
  "(be_value [a, b, c, d, a', b', c', d'] :: u64) =
     push_bit 56 (ucast a) OR push_bit 48 (ucast b) OR push_bit 40 (ucast c) OR
     push_bit 32 (ucast d) OR push_bit 24 (ucast a') OR push_bit 16 (ucast b') OR
     push_bit 8 (ucast c') OR ucast d'"
  by simp

lemma bit_byte_at:
  "bit (push_bit m (ucast (ucast (drop_bit m x) :: u8)) :: 'a::len word) n \<longleftrightarrow>
     m \<le> n \<and> n < m + 8 \<and> bit (x :: 'a word) n"
  by (auto simp add: bit_simps dest: bit_imp_le_length)

lemma bit_byte_0:
  "bit (ucast (ucast x :: u8) :: 'a::len word) n \<longleftrightarrow> n < 8 \<and> bit (x :: 'a word) n"
  by (auto simp add: bit_simps dest: bit_imp_le_length)

lemma be_value_bytes32:
  "be_value [ucast (drop_bit 24 x), ucast (drop_bit 16 x), ucast (drop_bit 8 x), ucast x :: u8] =
   (x :: u32)"
proof (rule bit_word_eqI)
  fix n
  assume "n < LENGTH(32)"
  then have "n < 8 \<or> (8 \<le> n \<and> n < 8 + 8) \<or> (16 \<le> n \<and> n < 16 + 8) \<or> (24 \<le> n \<and> n < 24 + 8)"
    by auto
  then show "bit (be_value [ucast (drop_bit 24 x), ucast (drop_bit 16 x), ucast (drop_bit 8 x),
      ucast x :: u8] :: u32) n = bit x n"
    unfolding be_value_4 bit_or_iff bit_byte_at bit_byte_0
    by blast
qed

lemma be_value_bytes64:
  "be_value [ucast (drop_bit 56 x), ucast (drop_bit 48 x), ucast (drop_bit 40 x),
     ucast (drop_bit 32 x), ucast (drop_bit 24 x), ucast (drop_bit 16 x),
     ucast (drop_bit 8 x), ucast x :: u8] = (x :: u64)"
proof (rule bit_word_eqI)
  fix n
  assume "n < LENGTH(64)"
  then have "n < 8 \<or> (8 \<le> n \<and> n < 8 + 8) \<or> (16 \<le> n \<and> n < 16 + 8) \<or>
      (24 \<le> n \<and> n < 24 + 8) \<or> (32 \<le> n \<and> n < 32 + 8) \<or> (40 \<le> n \<and> n < 40 + 8) \<or>
      (48 \<le> n \<and> n < 48 + 8) \<or> (56 \<le> n \<and> n < 56 + 8)"
    by auto
  then show "bit (be_value [ucast (drop_bit 56 x), ucast (drop_bit 48 x), ucast (drop_bit 40 x),
     ucast (drop_bit 32 x), ucast (drop_bit 24 x), ucast (drop_bit 16 x),
     ucast (drop_bit 8 x), ucast x :: u8] :: u64) n = bit x n"
    unfolding be_value_8 bit_or_iff bit_byte_at bit_byte_0
    by blast
qed

lemma header_fields_wire:
  "header_fields (be32_bytes a @ be32_bytes b @ be32_bytes c @ be32_bytes d @ be32_bytes f @
     be64_bytes t @ be32_bytes s @ be32_bytes r @ rest) =
   \<lparr>magic = a, version = b, width = c, height = d, format = f, timestamp = t, size_h = s,
    reserved = r\<rparr>"
  unfolding header_fields_def be32_bytes_def be64_bytes_def
  by (simp add: be_value_bytes32 be_value_bytes64 del: be_value.simps)

lemma length_wire:
  "length (be32_bytes a @ be32_bytes b @ be32_bytes c @ be32_bytes d @ be32_bytes f @
     be64_bytes t @ be32_bytes s @ be32_bytes r @ rest) = 36 + length rest"
  by (simp add: be32_bytes_def be64_bytes_def)

lemma decode_wire:
  "decode_header (be32_bytes IPDISP_MAGIC @ be32_bytes IPDISP_VERSION @ be32_bytes c @
     be32_bytes d @ be32_bytes f @ be64_bytes t @ be32_bytes s @ be32_bytes r @ rest) =
   Inr \<lparr>magic = IPDISP_MAGIC, version = IPDISP_VERSION, width = c, height = d, format = f,
     timestamp = t, size_h = s, reserved = r\<rparr>"
  unfolding decode_header_def header_fields_wire length_wire
  by (simp add: Let_def)

lemma encode_header_wire:
  "encode_header e h =
     be32_bytes (magic h) @ be32_bytes (version h) @ be32_bytes (width h) @
     be32_bytes (height h) @ be32_bytes (format h) @ be64_bytes (timestamp h) @
     be32_bytes (size_h h) @ be32_bytes (reserved h)"
  by (simp add: encode_header_def cpu_to_be_header_def header_mem_def mem32_cpu_to_be32
      mem64_cpu_to_be64)

section \<open>The copy into the frame store\<close>

lemma unat_min_t: "unat (min_t a b) = min (unat a) (unat b)"
  by (simp add: min_t_def word_less_nat_alt min_def)

lemma unat_supplied_size:
  "unat (ucast (h * p :: u32) :: size_t) = (unat h * unat p) mod 2 ^ 32"
proof -
  have "unat (h * p) < 2 ^ 32"
    using unsigned_less [of "h * p", where ?'a = nat] by simp
  then have "unat (h * p) < 2 ^ 64"
    by simp
  then have "take_bit 64 (unat (h * p)) = unat (h * p)"
    by (simp only: take_bit_nat_eq_self)
  moreover have "unat (ucast (h * p :: u32) :: size_t) = take_bit 64 (unat (h * p))"
    using unsigned_ucast_eq [of "h * p", where ?'c = 64 and ?'a = nat] by simp
  ultimately have "unat (ucast (h * p :: u32) :: size_t) = unat (h * p)"
    by simp
  then show ?thesis
    by (simp only: unat_word_ariths) simp
qed

lemma unat_copy_size:
  "unat (copy_size idev fb) =
     min (unat (fb_size idev)) ((unat (fb_height fb) * unat (fb_pitches0 fb)) mod 2 ^ 32)"
  by (simp add: copy_size_def unat_min_t unat_supplied_size)

section \<open>Claims\<close>

text \<open>
  C1. The header of every packet is 32 bytes long (\<open>IPDISP_HEADER_SIZE\<close>), its fields
  big-endian, with the magic and the version constant. The fields are big-endian and
  the constants are right, but the struct has 36 bytes: on a little-endian host with a
  1920 by 1080 display and the clock at 5, the greeting handed to \<open>kernel_sendmsg\<close> for
  the client on socket 7 is the 36 bytes below, and the header of a frame packet with a
  3-byte payload has 36 bytes as well.
\<close>
theorem greeting_header_is_36_bytes:
  "sendmsg_calls (snd (ipdisp_network_send_display_info LittleEndian (\<lambda>s m. 36) 5
       example_device (example_client 7) example_kernel)) =
     [(7, [0x49, 0x50, 0x44, 0x53, 0, 0, 0, 1, 0, 0, 7, 0x80, 0, 0, 4, 0x38, 0, 0, 0, 0,
           0, 0, 0, 0, 0, 0, 0, 5, 0, 0, 0, 0, 0, 0, 0, 0])] \<and>
   length (greeting_bytes example_device 5) = 36 \<and>
   length (header_mem LittleEndian (frame_header LittleEndian example_device 5 3)) = 36 \<and>
   IPDISP_HEADER_SIZE = 32"
  by (simp add: send_display_info_calls example_greeting_bytes example_kernel_def
      example_client_def IPDISP_HEADER_SIZE_def length_header_mem sizeof_header_def)

text \<open>
  C6. The greeting sent to every newly admitted client: whenever a pass of the accept
  loop admits a client, exactly one message goes to that client's socket, and it is the
  header alone (as many bytes as the struct has, no payload after it) with, in network
  order, the magic, the version, the device's width and height, the format 0 (RGBA32),
  the clock, the size 0 and the reserved field 0.
\<close>
theorem greeting_packet:
  assumes "fst (thread_admit e env (idev, k))"
  shows "clients (fst (snd (thread_admit e env (idev, k)))) =
           clients idev @ [\<lparr>sock = accept_sock env, addr = peer_addr env, active = True\<rparr>] \<and>
         sendmsg_calls (snd (snd (thread_admit e env (idev, k)))) =
           sendmsg_calls k @
           [(accept_sock env,
             be32_bytes IPDISP_MAGIC @ be32_bytes IPDISP_VERSION @
             be32_bytes (dev_width idev) @ be32_bytes (dev_height idev) @
             be32_bytes 0 @ be64_bytes (ktime env) @ be32_bytes 0 @ be32_bytes 0)] \<and>
         format_value IPDISP_FORMAT_RGBA32 = 0 \<and>
         length (be32_bytes IPDISP_MAGIC @ be32_bytes IPDISP_VERSION @
             be32_bytes (dev_width idev) @ be32_bytes (dev_height idev) @
             be32_bytes 0 @ be64_bytes (ktime env) @ be32_bytes 0 @ be32_bytes 0) = sizeof_header"
  using thread_admit_flag [OF assms]
  by (simp add: send_display_info_calls greeting_bytes_def sizeof_header_def be32_bytes_def
      be64_bytes_def)

theorem greeting_packet_witness:
  "fst (thread_admit LittleEndian (example_env 7 (\<lambda>s m. 36)) (example_device, example_kernel)) \<and>
   sendmsg_calls (snd (snd (thread_admit LittleEndian (example_env 7 (\<lambda>s m. 36))
       (example_device, example_kernel)))) =
     [(7, [0x49, 0x50, 0x44, 0x53, 0, 0, 0, 1, 0, 0, 7, 0x80, 0, 0, 4, 0x38, 0, 0, 0, 0,
           0, 0, 0, 0, 0, 0, 0, 5, 0, 0, 0, 0, 0, 0, 0, 0])]"
proof -
  have h: "fst (thread_admit LittleEndian (example_env 7 (\<lambda>s m. 36))
      (example_device, example_kernel))"
    by (simp add: example_admit)
  show ?thesis
    using h greeting_packet [OF h]
    by (simp add: example_env_def example_kernel_def example_device_def be32_bytes_def
        be64_bytes_def IPDISP_MAGIC_def IPDISP_VERSION_def drop_bit_eq_div)
qed

text \<open>
  C10. When \<open>kernel_getpeername\<close> fails on a freshly accepted connection, the pass of the
  accept loop releases that socket and does nothing else but log: the device, and with
  it the registry, is as before, no client entry exists for the connection, and no
  message is sent.
\<close>
theorem peername_failure_not_admitted:
  assumes "listen_sock idev \<noteq> NULL" and "0 \<le> sint (accept_ret env)"
    and "sint (getpeername_ret env) < 0"
  shows "thread_iter e env (idev, k) =
           (idev, k\<lparr>klog := klog k @ [Warn_peer_name (getpeername_ret env)],
                    released := released k @ [accept_sock env]\<rparr>) \<and>
         clients (fst (thread_iter e env (idev, k))) = clients idev \<and>
         sendmsg_calls (snd (thread_iter e env (idev, k))) = sendmsg_calls k \<and>
         ipdisp_network_thread e [env] (idev, k) = thread_iter e env (idev, k)"
  using assms by (simp add: thread_iter_def thread_admit_def)

theorem peername_failure_not_admitted_witness:
  "thread_iter LittleEndian ((example_env 7 (\<lambda>s m. 36))\<lparr>getpeername_ret := - 107\<rparr>)
     (example_device, example_kernel) =
   (example_device, example_kernel\<lparr>released := [7], klog := [Warn_peer_name (- 107)]\<rparr>)"
proof -
  let ?env = "(example_env 7 (\<lambda>s m. 36))\<lparr>getpeername_ret := - 107\<rparr>"
  have h: "listen_sock example_device \<noteq> NULL" "0 \<le> sint (accept_ret ?env)"
    "sint (getpeername_ret ?env) < 0"
    by (simp_all add: example_device_def example_env_def NULL_def)
  show ?thesis
    using peername_failure_not_admitted [OF h, of LittleEndian example_kernel]
    by (simp add: example_env_def example_kernel_def)
qed

text \<open>
  C2. From an empty registry, after any interleaving of admissions, cleanup passes,
  broadcasts and shutdowns, at most 4 (\<open>IPDISP_MAX_CLIENTS\<close>) entries are active. A
  pass of the accept loop that gets a connection while 4 clients are active rejects it:
  the socket is released, the device and its registry stay as they were, and only two
  log lines are added.
\<close>
theorem active_clients_bounded:
  assumes "clients idev0 = []"
  shows "active_count (clients (fst (run e evs (idev0, k0)))) \<le> 4 \<and>
         (active_count (clients idev) = 4 \<and> listen_sock idev \<noteq> NULL \<and>
          0 \<le> sint (accept_ret env) \<and> 0 \<le> sint (getpeername_ret env) \<longrightarrow>
          thread_iter e env (idev, k) =
            (idev, k\<lparr>klog := klog k @ [Info_new_client (peer_addr env), Warn_max_clients],
                     released := released k @ [accept_sock env]\<rparr>))"
proof -
  have "active_count (clients (fst (idev0, k0))) \<le> 4"
    using assms by (simp add: active_count_def)
  then have "active_count (clients (fst (run e evs (idev0, k0)))) \<le> 4"
    by (rule run_active_count)
  then show ?thesis
    by (simp add: thread_iter_full)
qed

theorem active_clients_bounded_witness:
  "clients example_device = [] \<and>
   active_count (clients (fst (run LittleEndian four_admits (example_device, example_kernel)))) = 4 \<and>
   clients (fst (thread_iter LittleEndian (example_env 11 (\<lambda>s m. 36))
       (run LittleEndian four_admits (example_device, example_kernel)))) =
     [example_client 7, example_client 8, example_client 9, example_client 10] \<and>
   released (snd (thread_iter LittleEndian (example_env 11 (\<lambda>s m. 36))
       (run LittleEndian four_admits (example_device, example_kernel)))) = [11]"
proof -
  obtain idev k where s: "run LittleEndian four_admits (example_device, example_kernel) = (idev, k)"
    by (cases "run LittleEndian four_admits (example_device, example_kernel)")
  have cs: "clients idev = [example_client 7, example_client 8, example_client 9, example_client 10]"
    using example_four_clients s by simp
  have ls: "listen_sock idev \<noteq> NULL"
    using example_four_listen s by (simp add: NULL_def)
  have rel: "released k = []"
    using example_four_released s by simp
  have h: "clients example_device = []"
    by (simp add: example_device_def)
  have n: "active_count (clients idev) = 4"
    by (simp add: cs active_count_def example_client_def)
  have a: "0 \<le> sint (accept_ret (example_env 11 (\<lambda>s m. 36)))"
    "0 \<le> sint (getpeername_ret (example_env 11 (\<lambda>s m. 36)))"
    by (simp_all add: example_env_def)
  show ?thesis
    using active_clients_bounded [OF h, of LittleEndian four_admits example_kernel idev
        "example_env 11 (\<lambda>s m. 36)" k] h n ls a cs rel s
    by (simp add: example_env_def)
qed

text \<open>
  C7. When the greeting to a newly admitted client fails (the send returns anything but
  the size of the header), the admission stands: the pass leaves the state it would
  leave after a successful greeting plus one warning in the log, the new entry is in the
  registry with \<open>active\<close> set, and it is still there, unchanged, after the cleanup
  pass that ends the iteration.
\<close>
theorem greeting_failure_keeps_client:
  assumes "fst (thread_admit e env (idev, k))"
    and "sint (sendmsg_ret env (accept_sock env) (greeting_bytes idev (ktime env))) \<noteq>
         int sizeof_header"
  shows "snd (thread_admit e env (idev, k)) =
           (idev\<lparr>clients := clients idev @
               [\<lparr>sock = accept_sock env, addr = peer_addr env, active = True\<rparr>]\<rparr>,
            k\<lparr>klog := klog k @
                 [Info_new_client (peer_addr env),
                  Warn_display_info
                    (sendmsg_ret env (accept_sock env) (greeting_bytes idev (ktime env)))],
              sendmsg_calls := sendmsg_calls k @
                 [(accept_sock env, greeting_bytes idev (ktime env))]\<rparr>) \<and>
         clients (fst (thread_iter e env (idev, k))) =
           filter active (clients idev) @
           [\<lparr>sock = accept_sock env, addr = peer_addr env, active = True\<rparr>]"
  using thread_admit_flag [OF assms(1)] assms(2)
  by (simp add: thread_iter_def send_display_info_fail cleanup_clients_eq)

theorem greeting_failure_keeps_client_witness:
  "clients (fst (thread_iter LittleEndian (example_env 7 (\<lambda>s m. - 32))
      (example_device, example_kernel))) = [example_client 7] \<and>
   klog (snd (thread_iter LittleEndian (example_env 7 (\<lambda>s m. - 32))
      (example_device, example_kernel))) =
     [Info_new_client \<lparr>sin_addr = 0x7f000001, sin_port = 40000\<rparr>, Warn_display_info (- 32)]"
proof -
  let ?env = "example_env 7 (\<lambda>s m. - 32)"
  have a: "fst (thread_admit LittleEndian ?env (example_device, example_kernel))"
    by (simp add: thread_admit_def example_env_def example_device_def Let_def NULL_def
        IPDISP_MAX_CLIENTS_def)
  have b: "sint (sendmsg_ret ?env (accept_sock ?env) (greeting_bytes example_device (ktime ?env))) \<noteq>
      int sizeof_header"
    by (simp add: example_env_def sizeof_header_def)
  have "klog (snd (thread_iter LittleEndian ?env (example_device, example_kernel))) =
      klog (snd (snd (thread_admit LittleEndian ?env (example_device, example_kernel))))"
    using a by (cases "thread_admit LittleEndian ?env (example_device, example_kernel)")
      (simp add: thread_iter_def cleanup_clients_eq)
  then show ?thesis
    using greeting_failure_keeps_client [OF a b]
    by (simp add: example_env_def example_device_def example_client_def example_kernel_def)
qed

text \<open>
  C5. A broadcast on an empty registry returns 0 and leaves device and kernel as they
  were: nothing is sent. A broadcast on a non-empty registry in which no send to an
  active client succeeds returns 0 and leaves \<open>stream_work\<close> scheduled again.
\<close>
theorem broadcast_empty_or_fruitless:
  "(clients idev = [] \<longrightarrow> ipdisp_network_send_frame e tx now data (idev, k) = (0, idev, k)) \<and>
   (clients idev \<noteq> [] \<and>
    (\<forall>c \<in> set (clients idev). active c \<longrightarrow>
       send_failed (frame_total_len data) (tx (sock c) (frame_msg e idev now data))) \<longrightarrow>
    fst (ipdisp_network_send_frame e tx now data (idev, k)) = 0 \<and>
    stream_work_pending (snd (snd (ipdisp_network_send_frame e tx now data (idev, k)))))"
proof -
  have "filter (\<lambda>c. active c \<and>
       \<not> send_failed (frame_total_len data) (tx (sock c) (frame_msg e idev now data)))
       (clients idev) = []"
    if "\<forall>c \<in> set (clients idev). active c \<longrightarrow>
       send_failed (frame_total_len data) (tx (sock c) (frame_msg e idev now data))"
    using that by (auto simp add: filter_empty_conv)
  then show ?thesis
    by (auto simp add: send_frame_eq)
qed

theorem broadcast_empty_or_fruitless_witness:
  "ipdisp_network_send_frame LittleEndian (\<lambda>s m. 36) 5 [1, 2, 3] (example_device, example_kernel) =
     (0, example_device, example_kernel) \<and>
   \<not> stream_work_pending example_kernel \<and>
   stream_work_pending (snd (snd (ipdisp_network_send_frame LittleEndian (\<lambda>s m. - 32) 5 [1, 2, 3]
     (example_device\<lparr>clients := [example_client 7]\<rparr>, example_kernel))))"
proof -
  have a: "clients example_device = []"
    by (simp add: example_device_def)
  have b: "clients (example_device\<lparr>clients := [example_client 7]\<rparr>) \<noteq> [] \<and>
    (\<forall>c \<in> set (clients (example_device\<lparr>clients := [example_client 7]\<rparr>)). active c \<longrightarrow>
       send_failed (frame_total_len [1, 2, 3]) ((\<lambda>s m. - 32) (sock c)
         (frame_msg LittleEndian (example_device\<lparr>clients := [example_client 7]\<rparr>) 5 [1, 2, 3])))"
    by (simp add: send_failed_def)
  show ?thesis
    using broadcast_empty_or_fruitless [of example_device LittleEndian "\<lambda>s m. 36" 5 "[1, 2, 3]"
        example_kernel] a
      broadcast_empty_or_fruitless [of "example_device\<lparr>clients := [example_client 7]\<rparr>"
        LittleEndian "\<lambda>s m. - 32" 5 "[1, 2, 3]" example_kernel] b
    by (simp add: example_kernel_def)
qed

text \<open>
  C3. In one broadcast over the registry, when the send to the active client at position
  \<open>i\<close> returns an error or fewer bytes than header plus payload, that client's \<open>active\<close>
  flag is cleared. The cycle goes on: \<open>kernel_sendmsg\<close> is called once for every client
  that was active, in order, each time with the whole message (the header, then exactly
  the payload), and what becomes of any other client depends on the answer to its own
  send alone. The payload is a buffer in memory, so header plus payload fit a \<open>size_t\<close>.
\<close>
theorem broadcast_isolates_failure:
  assumes "i < length (clients idev)" and "active (clients idev ! i)"
    and "length data + sizeof_header < 2 ^ 64"
    and "sint (tx (sock (clients idev ! i)) (frame_msg e idev now data)) < 0 \<or>
         nat (sint (tx (sock (clients idev ! i)) (frame_msg e idev now data))) <
           sizeof_header + length data"
  shows "\<not> active (clients (fst (snd (ipdisp_network_send_frame e tx now data (idev, k)))) ! i) \<and>
    (\<forall>j < length (clients idev). j \<noteq> i \<longrightarrow>
       clients (fst (snd (ipdisp_network_send_frame e tx now data (idev, k)))) ! j =
         after_send tx (frame_msg e idev now data) (frame_total_len data) (clients idev ! j)) \<and>
    sendmsg_calls (snd (snd (ipdisp_network_send_frame e tx now data (idev, k)))) =
      sendmsg_calls k @ map (\<lambda>c. (sock c, frame_msg e idev now data)) (filter active (clients idev)) \<and>
    (\<forall>j < length (clients idev). j \<noteq> i \<and> active (clients idev ! j) \<longrightarrow>
       (sock (clients idev ! j), frame_msg e idev now data) \<in>
         set (map (\<lambda>c. (sock c, frame_msg e idev now data)) (filter active (clients idev)))) \<and>
    frame_msg e idev now data =
      (be32_bytes IPDISP_MAGIC @ be32_bytes IPDISP_VERSION @ be32_bytes (dev_width idev) @
       be32_bytes (dev_height idev) @ be32_bytes 0 @ be64_bytes now @
       be32_bytes (ucast (of_nat (length data) :: size_t)) @ be32_bytes 0) @ data"
proof -
  let ?msg = "frame_msg e idev now data"
  have ne: "clients idev \<noteq> []"
    using assms(1) by auto
  have failed: "send_failed (frame_total_len data) (tx (sock (clients idev ! i)) ?msg)"
    using assms(3,4) by (rule short_send_failed)
  have 1: "\<not> active (clients (fst (snd (ipdisp_network_send_frame e tx now data (idev, k)))) ! i)"
    using assms(1,2) failed by (simp add: send_frame_clients after_send_def)
  have 2: "\<forall>j < length (clients idev). j \<noteq> i \<longrightarrow>
       clients (fst (snd (ipdisp_network_send_frame e tx now data (idev, k)))) ! j =
         after_send tx ?msg (frame_total_len data) (clients idev ! j)"
    by (simp add: send_frame_clients)
  have 3: "sendmsg_calls (snd (snd (ipdisp_network_send_frame e tx now data (idev, k)))) =
      sendmsg_calls k @ map (\<lambda>c. (sock c, ?msg)) (filter active (clients idev))"
    using ne by (simp add: send_frame_eq)
  have 4: "\<forall>j < length (clients idev). j \<noteq> i \<and> active (clients idev ! j) \<longrightarrow>
       (sock (clients idev ! j), ?msg) \<in>
         set (map (\<lambda>c. (sock c, ?msg)) (filter active (clients idev)))"
    by auto
  have 5: "?msg =
      (be32_bytes IPDISP_MAGIC @ be32_bytes IPDISP_VERSION @ be32_bytes (dev_width idev) @
       be32_bytes (dev_height idev) @ be32_bytes 0 @ be64_bytes now @
       be32_bytes (ucast (of_nat (length data) :: size_t)) @ be32_bytes 0) @ data"
    by (simp add: frame_msg_def frame_header_mem)
  from 1 2 3 4 5 show ?thesis
    by blast
qed

theorem broadcast_isolates_failure_witness:
  "\<not> active (clients (fst (snd (ipdisp_network_send_frame LittleEndian broken_pipe_on_8 5
       [1, 2, 3] (three_clients, example_kernel)))) ! 1) \<and>
   clients (fst (snd (ipdisp_network_send_frame LittleEndian broken_pipe_on_8 5
       [1, 2, 3] (three_clients, example_kernel)))) ! 0 = example_client 7 \<and>
   clients (fst (snd (ipdisp_network_send_frame LittleEndian broken_pipe_on_8 5
       [1, 2, 3] (three_clients, example_kernel)))) ! 2 = example_client 9 \<and>
   sendmsg_calls (snd (snd (ipdisp_network_send_frame LittleEndian broken_pipe_on_8 5 [1, 2, 3]
       (three_clients, example_kernel)))) =
     [(7, frame_msg LittleEndian three_clients 5 [1, 2, 3]),
      (8, frame_msg LittleEndian three_clients 5 [1, 2, 3]),
      (9, frame_msg LittleEndian three_clients 5 [1, 2, 3])] \<and>
   frame_msg LittleEndian three_clients 5 [1, 2, 3] =
     [0x49, 0x50, 0x44, 0x53, 0, 0, 0, 1, 0, 0, 7, 0x80, 0, 0, 4, 0x38, 0, 0, 0, 0,
      0, 0, 0, 0, 0, 0, 0, 5, 0, 0, 0, 3, 0, 0, 0, 0, 1, 2, 3]"
proof -
  let ?msg = "frame_msg LittleEndian three_clients 5 [1, 2, 3]"
  let ?r = "ipdisp_network_send_frame LittleEndian broken_pipe_on_8 5 [1, 2, 3]
       (three_clients, example_kernel)"
  have a: "1 < length (clients three_clients)" "active (clients three_clients ! 1)"
    "length [1, 2, 3 :: u8] + sizeof_header < 2 ^ 64"
    by (simp_all add: three_clients_def example_client_def sizeof_header_def)
  have b: "sint (broken_pipe_on_8 (sock (clients three_clients ! 1)) ?msg) < 0 \<or>
         nat (sint (broken_pipe_on_8 (sock (clients three_clients ! 1)) ?msg)) <
           sizeof_header + length [1, 2, 3 :: u8]"
    by (simp add: three_clients_def example_client_def broken_pipe_on_8_def)
  have f: "frame_total_len [1, 2, 3] = 39"
    by (simp add: frame_total_len_def sizeof_header_def)
  note t = broadcast_isolates_failure [where i = 1 and idev = three_clients
      and data = "[1, 2, 3]" and tx = broken_pipe_on_8 and e = LittleEndian and now = 5
      and k = example_kernel, OF a b]
  have c0: "clients (fst (snd ?r)) ! 0 = example_client 7"
    using t by (simp add: f after_send_def send_failed_def three_clients_def
        example_client_def broken_pipe_on_8_def)
  have c2: "clients (fst (snd ?r)) ! 2 = example_client 9"
    using t by (simp add: f after_send_def send_failed_def three_clients_def
        example_client_def broken_pipe_on_8_def)
  have c1: "\<not> active (clients (fst (snd ?r)) ! 1)"
    using t by simp
  have calls: "sendmsg_calls (snd (snd ?r)) = [(7, ?msg), (8, ?msg), (9, ?msg)]"
    using t by (simp add: three_clients_def example_client_def example_kernel_def)
  show ?thesis
    using c0 c1 c2 calls example_frame_msg by simp
qed

text \<open>
  C4. The claim: the only transitions of a client are active to inactive (a failed or
  partial send) and inactive to removed (the next cleanup pass), and no operation sets
  the flag of an existing client back to true. As stated it fails at shutdown:
  \<open>ipdisp_network_cleanup\<close> unlinks and closes every entry, so three active clients
  go from active to removed without ever being inactive.
\<close>
theorem shutdown_removes_active_clients:
  "clients three_clients = [example_client 7, example_client 8, example_client 9] \<and>
   active (example_client 7) \<and> active (example_client 8) \<and> active (example_client 9) \<and>
   clients (fst (ipdisp_network_cleanup (three_clients, example_kernel))) = [] \<and>
   released (snd (ipdisp_network_cleanup (three_clients, example_kernel))) = [1, 7, 8, 9]"
  by (simp add: network_cleanup_eq three_clients_def example_client_def example_device_def
      example_kernel_def NULL_def)

text \<open>
  C4, amended. Every operation on the registry, for every client in it:
  an admission leaves the existing entries as they are and may append one new active
  entry; a broadcast clears the flag of exactly the active clients whose send failed or
  was partial and leaves every other entry as it is, so an entry that is active
  afterwards was active before; a cleanup pass removes exactly the inactive entries,
  releases their sockets and leaves the active ones as they are; the shutdown removes and
  closes every entry, active or not. No operation sets a flag back to true.
\<close>
theorem client_transitions:
  "(case ev of
      Ev_admit env \<Rightarrow>
        clients (fst (step e ev (idev, k))) = clients idev \<or>
        clients (fst (step e ev (idev, k))) =
          clients idev @ [\<lparr>sock = accept_sock env, addr = peer_addr env, active = True\<rparr>]
    | Ev_cleanup \<Rightarrow>
        clients (fst (step e ev (idev, k))) = filter active (clients idev) \<and>
        released (snd (step e ev (idev, k))) =
          released k @ map sock (filter (\<lambda>c. \<not> active c \<and> sock c \<noteq> NULL) (clients idev))
    | Ev_frame tx now data \<Rightarrow>
        clients (fst (step e ev (idev, k))) =
          map (after_send tx (frame_msg e idev now data) (frame_total_len data)) (clients idev) \<and>
        (\<forall>j < length (clients idev).
           (active (clients idev ! j) \<and>
            send_failed (frame_total_len data) (tx (sock (clients idev ! j)) (frame_msg e idev now data))
            \<longrightarrow> clients (fst (step e ev (idev, k))) ! j = (clients idev ! j)\<lparr>active := False\<rparr>) \<and>
           (active (clients (fst (step e ev (idev, k))) ! j) \<longrightarrow>
            active (clients idev ! j) \<and>
            clients (fst (step e ev (idev, k))) ! j = clients idev ! j) \<and>
           (\<not> active (clients idev ! j) \<longrightarrow>
            clients (fst (step e ev (idev, k))) ! j = clients idev ! j))
    | Ev_shutdown \<Rightarrow>
        clients (fst (step e ev (idev, k))) = [] \<and>
        released (snd (step e ev (idev, k))) =
          (if listen_sock idev \<noteq> NULL then released k @ [listen_sock idev] else released k) @
          map sock (filter (\<lambda>c. sock c \<noteq> NULL) (clients idev)))"
proof (cases ev)
  case (Ev_admit env)
  then show ?thesis
    by (simp add: thread_admit_clients)
next
  case Ev_cleanup
  then show ?thesis
    by (simp add: cleanup_clients_eq)
next
  case (Ev_frame tx now data)
  then show ?thesis
    by (simp add: send_frame_clients after_send_def)
next
  case Ev_shutdown
  then show ?thesis
    by (simp add: network_cleanup_eq)
qed

theorem client_transitions_witness:
  "clients (fst (step LittleEndian (Ev_frame broken_pipe_on_8 5 [1, 2, 3])
       (three_clients, example_kernel))) =
     [example_client 7, (example_client 8)\<lparr>active := False\<rparr>, example_client 9] \<and>
   clients (fst (step LittleEndian Ev_cleanup
       (three_clients\<lparr>clients :=
          [example_client 7, (example_client 8)\<lparr>active := False\<rparr>, example_client 9]\<rparr>,
        example_kernel))) = [example_client 7, example_client 9] \<and>
   released (snd (step LittleEndian Ev_cleanup
       (three_clients\<lparr>clients :=
          [example_client 7, (example_client 8)\<lparr>active := False\<rparr>, example_client 9]\<rparr>,
        example_kernel))) = [8]"
proof -
  have f: "frame_total_len [1, 2, 3] = 39"
    by (simp add: frame_total_len_def sizeof_header_def)
  show ?thesis
    using client_transitions [where ev = "Ev_frame broken_pipe_on_8 5 [1, 2, 3]"
        and e = LittleEndian and idev = three_clients and k = example_kernel]
      client_transitions [where ev = Ev_cleanup and e = LittleEndian
        and idev = "three_clients\<lparr>clients :=
          [example_client 7, (example_client 8)\<lparr>active := False\<rparr>, example_client 9]\<rparr>"
        and k = example_kernel]
    by (simp add: f after_send_def send_failed_def three_clients_def example_client_def
        broken_pipe_on_8_def example_kernel_def NULL_def)
qed

text \<open>
  C8. Decoding what the encoder produces gives the header back, field for field: for
  every header with the protocol's magic and version, whatever follows the header on the
  wire; for the greeting the driver sends (size 0, nothing after the header); and for
  the frame packet it sends (the payload's length as size, the payload after the
  header).
\<close>
theorem header_round_trip:
  "(magic h = IPDISP_MAGIC \<and> version h = IPDISP_VERSION \<longrightarrow>
      decode_header (encode_header e h @ payload) = Inr h) \<and>
   decode_header (header_mem e (display_info_header e idev now)) =
     Inr \<lparr>magic = IPDISP_MAGIC, version = IPDISP_VERSION, width = dev_width idev,
       height = dev_height idev, format = format_value IPDISP_FORMAT_RGBA32, timestamp = now,
       size_h = 0, reserved = 0\<rparr> \<and>
   decode_header (header_mem e (frame_header e idev now (of_nat (length payload))) @ payload) =
     Inr \<lparr>magic = IPDISP_MAGIC, version = IPDISP_VERSION, width = dev_width idev,
       height = dev_height idev, format = format_value IPDISP_FORMAT_RGBA32, timestamp = now,
       size_h = ucast (of_nat (length payload) :: size_t), reserved = 0\<rparr>"
proof -
  have 1: "decode_header (encode_header e h @ payload) = Inr h"
    if "magic h = IPDISP_MAGIC" "version h = IPDISP_VERSION"
  proof -
    have "decode_header (encode_header e h @ payload) =
        Inr \<lparr>magic = IPDISP_MAGIC, version = IPDISP_VERSION, width = width h,
          height = height h, format = format h, timestamp = timestamp h, size_h = size_h h,
          reserved = reserved h\<rparr>"
      using decode_wire [of "width h" "height h" "format h" "timestamp h" "size_h h"
          "reserved h" payload] that
      by (simp add: encode_header_wire)
    then show ?thesis
      using that by simp
  qed
  have 2: "decode_header (header_mem e (display_info_header e idev now)) =
     Inr \<lparr>magic = IPDISP_MAGIC, version = IPDISP_VERSION, width = dev_width idev,
       height = dev_height idev, format = format_value IPDISP_FORMAT_RGBA32, timestamp = now,
       size_h = 0, reserved = 0\<rparr>"
    using decode_wire [of "dev_width idev" "dev_height idev" 0 now 0 0 "[]"]
    by (simp add: display_info_header_mem greeting_bytes_def)
  have 3: "decode_header (header_mem e (frame_header e idev now (of_nat (length payload))) @ payload) =
     Inr \<lparr>magic = IPDISP_MAGIC, version = IPDISP_VERSION, width = dev_width idev,
       height = dev_height idev, format = format_value IPDISP_FORMAT_RGBA32, timestamp = now,
       size_h = ucast (of_nat (length payload) :: size_t), reserved = 0\<rparr>"
    using decode_wire [of "dev_width idev" "dev_height idev" 0 now
        "ucast (of_nat (length payload) :: size_t)" 0 payload]
    by (simp add: frame_header_mem)
  from 1 2 3 show ?thesis
    by blast
qed

theorem header_round_trip_witness:
  "decode_header (encode_header LittleEndian (example_header 0)) = Inr (example_header 0) \<and>
   decode_header (encode_header LittleEndian (example_header 3) @ [1, 2, 3]) =
     Inr (example_header 3) \<and>
   encode_header LittleEndian (example_header 3) =
     [0x49, 0x50, 0x44, 0x53, 0, 0, 0, 1, 0, 0, 7, 0x80, 0, 0, 4, 0x38, 0, 0, 0, 0,
      0, 0, 0, 0, 0, 0, 0, 5, 0, 0, 0, 3, 0, 0, 0, 0]"
proof -
  have a: "magic (example_header n) = IPDISP_MAGIC \<and> version (example_header n) = IPDISP_VERSION"
    for n
    by (simp add: example_header_def)
  have b: "encode_header LittleEndian (example_header 3) =
     [0x49, 0x50, 0x44, 0x53, 0, 0, 0, 1, 0, 0, 7, 0x80, 0, 0, 4, 0x38, 0, 0, 0, 0,
      0, 0, 0, 0, 0, 0, 0, 5, 0, 0, 0, 3, 0, 0, 0, 0]"
    by (simp add: encode_header_wire example_header_def be32_bytes_def be64_bytes_def
        IPDISP_MAGIC_def IPDISP_VERSION_def drop_bit_eq_div)
  show ?thesis
    using header_round_trip [where h = "example_header 0" and e = LittleEndian and payload = "[]"]
      header_round_trip [where h = "example_header 3" and e = LittleEndian
        and payload = "[1, 2, 3]"] a b
    by simp
qed

text \<open>
  C9. When \<open>ipdisp_pipe_update\<close> copies new pixel data into the frame store, the number
  of bytes copied is the smaller of the store's capacity \<open>fb_size\<close> and the size of the
  supplied data, \<open>height * pitches[0]\<close> as the code computes it (a 32-bit product; it
  is the true product whenever that fits 32 bits). For every capacity, height and pitch
  the count is within both buffers, so the copy never faults, and the store keeps its
  length. The source memory holds the \<open>height\<close> rows of \<open>pitches[0]\<close> bytes, and the
  store was allocated with \<open>fb_size\<close> bytes.
\<close>
theorem pipe_update_copy_clamped:
  assumes "fb_vaddr fb = Some src"
    and "unat (fb_height fb) * unat (fb_pitches0 fb) \<le> length src"
    and "length (framebuffer idev) = unat (fb_size idev)"
    and "streaming_enabled idev"
    and "fb_format fb = DRM_FORMAT_XRGB8888 \<or> fb_format fb = DRM_FORMAT_ARGB8888"
  shows "unat (copy_size idev fb) =
           min (unat (fb_size idev)) ((unat (fb_height fb) * unat (fb_pitches0 fb)) mod 2 ^ 32) \<and>
         (unat (fb_height fb) * unat (fb_pitches0 fb) < 2 ^ 32 \<longrightarrow>
          unat (copy_size idev fb) =
            min (unat (fb_size idev)) (unat (fb_height fb) * unat (fb_pitches0 fb))) \<and>
         unat (copy_size idev fb) \<le> length (framebuffer idev) \<and>
         unat (copy_size idev fb) \<le> length src \<and>
         ipdisp_pipe_update (Some fb) (idev, k) =
           Inr (idev\<lparr>framebuffer := take (unat (copy_size idev fb)) src @
                     drop (unat (copy_size idev fb)) (framebuffer idev)\<rparr>,
                queue_stream_work idev k) \<and>
         length (take (unat (copy_size idev fb)) src @
                 drop (unat (copy_size idev fb)) (framebuffer idev)) = length (framebuffer idev)"
proof -
  let ?n = "unat (copy_size idev fb)"
  let ?s = "unat (fb_height fb) * unat (fb_pitches0 fb)"
  have n: "?n = min (unat (fb_size idev)) (?s mod 2 ^ 32)"
    by (rule unat_copy_size)
  have "?s mod 2 ^ 32 \<le> ?s"
    by simp
  then have src: "?n \<le> length src"
    using n assms(2) by linarith
  have dst: "?n \<le> length (framebuffer idev)"
    using n assms(3) by simp
  have run: "ipdisp_pipe_update (Some fb) (idev, k) =
           Inr (idev\<lparr>framebuffer := take ?n src @ drop ?n (framebuffer idev)\<rparr>,
                queue_stream_work idev k)"
    using assms(1,4,5) src dst by (auto simp add: ipdisp_pipe_update_def memcpy_def)
  have len: "length (take ?n src @ drop ?n (framebuffer idev)) = length (framebuffer idev)"
    using src dst by simp
  have small: "?s < 2 ^ 32 \<longrightarrow> ?n = min (unat (fb_size idev)) ?s"
    using n by simp
  from n small dst src run len show ?thesis
    by blast
qed

theorem pipe_update_copy_clamped_witness:
  "ipdisp_pipe_update (Some (example_fb 1 2 [9, 8])) (example_device, example_kernel) =
     Inr (example_device\<lparr>framebuffer := [9, 8, 0, 0]\<rparr>,
          example_kernel\<lparr>stream_work_pending := True\<rparr>) \<and>
   ipdisp_pipe_update (Some (example_fb 2 3 [9, 8, 7, 6, 5, 4])) (example_device, example_kernel) =
     Inr (example_device\<lparr>framebuffer := [9, 8, 7, 6]\<rparr>,
          example_kernel\<lparr>stream_work_pending := True\<rparr>)"
proof -
  have a: "fb_vaddr (example_fb 1 2 [9, 8]) = Some [9, 8]"
    "unat (fb_height (example_fb 1 2 [9, 8])) * unat (fb_pitches0 (example_fb 1 2 [9, 8])) \<le>
      length [9, 8 :: u8]"
    "length (framebuffer example_device) = unat (fb_size example_device)"
    "streaming_enabled example_device"
    "fb_format (example_fb 1 2 [9, 8]) = DRM_FORMAT_XRGB8888 \<or>
     fb_format (example_fb 1 2 [9, 8]) = DRM_FORMAT_ARGB8888"
    by (simp_all add: example_fb_def example_device_def)
  have b: "fb_vaddr (example_fb 2 3 [9, 8, 7, 6, 5, 4]) = Some [9, 8, 7, 6, 5, 4]"
    "unat (fb_height (example_fb 2 3 [9, 8, 7, 6, 5, 4])) *
     unat (fb_pitches0 (example_fb 2 3 [9, 8, 7, 6, 5, 4])) \<le> length [9, 8, 7, 6, 5, 4 :: u8]"
    "fb_format (example_fb 2 3 [9, 8, 7, 6, 5, 4]) = DRM_FORMAT_XRGB8888 \<or>
     fb_format (example_fb 2 3 [9, 8, 7, 6, 5, 4]) = DRM_FORMAT_ARGB8888"
    by (simp_all add: example_fb_def)
  have c: "unat (copy_size example_device (example_fb 1 2 [9, 8])) = 2"
    "unat (copy_size example_device (example_fb 2 3 [9, 8, 7, 6, 5, 4])) = 4"
    by (simp_all add: unat_copy_size example_fb_def example_device_def)
  show ?thesis
    using pipe_update_copy_clamped [OF a(1,2,3,4,5), of example_kernel]
      pipe_update_copy_clamped [OF b(1,2) a(3,4) b(3), of example_kernel]
    by (simp add: c queue_stream_work_def) (simp add: example_device_def)
qed

end
